theory Spec2Isabelle
  imports Main "HOL-Library.Sublist"
begin

section \<open>JavaScript values and the runtime operations the two services rely on\<close>

text \<open>
  Both services of \<^verbatim>\<open>brandfetch-proxy.js\<close> handle JSON that they do not own: the brand
  kit is whatever the upstream answers. A value is therefore any JavaScript value that
  \<^verbatim>\<open>JSON.parse\<close> can produce, plus \<^verbatim>\<open>undefined\<close> (what reading an absent property
  gives). An object is the list of its own properties. Strings are sequences of bytes
  (UTF-8). Numbers are kept abstract (type \<open>'n\<close>): the program never computes with a number
  of the kit, it only tests one for truthiness and interpolates one into a template, and
  these two operations of the language are the fields of \<open>runtime\<close>.
\<close>

datatype 'n jsval =
    JUndefined
  | JNull
  | JBool bool
  | JNum 'n
  | JStr string
  | JArr "'n jsval list"
  | JObj "(string \<times> 'n jsval) list"

record 'n runtime =
  num_truthy :: "'n \<Rightarrow> bool"
  num_to_string :: "'n \<Rightarrow> string"

text \<open>Exceptions are values; \<open>message\<close> is the \<^verbatim>\<open>.message\<close> property the handlers report.\<close>

datatype error =
    TypeError string
  | RangeError string
  | Error string
  | FetchError string
  | SyntaxError string

fun message :: "error \<Rightarrow> string" where
  "message (TypeError m) = m"
| "message (RangeError m) = m"
| "message (Error m) = m"
| "message (FetchError m) = m"
| "message (SyntaxError m) = m"

text \<open>ToBoolean, as used by \<^verbatim>\<open>||\<close>, \<^verbatim>\<open>&&\<close>, \<^verbatim>\<open>!\<close> and \<^verbatim>\<open>if\<close>.\<close>

fun truthy :: "'n runtime \<Rightarrow> 'n jsval \<Rightarrow> bool" where
  "truthy rt JUndefined = False"
| "truthy rt JNull = False"
| "truthy rt (JBool b) = b"
| "truthy rt (JNum n) = num_truthy rt n"
| "truthy rt (JStr s) = (s \<noteq> [])"
| "truthy rt (JArr xs) = True"
| "truthy rt (JObj ps) = True"

text \<open>
  The one number the Ad Generator computes with is the count, the result of
  \<^verbatim>\<open>parseInt\<close>: a double that is NaN, an integer or an infinity (every finite double that
  \<^verbatim>\<open>parseInt\<close> returns is an integer; minus zero is identified with zero: both are falsy,
  and no index is below either). \<open>number_truthy\<close> is ToBoolean on such a number and
  \<open>index_less i count\<close> is the test \<^verbatim>\<open>i < count\<close> for an array index \<open>i\<close>.
\<close>

datatype number = NaN | Finite int | PosInfinity | NegInfinity

fun number_truthy :: "number \<Rightarrow> bool" where
  "number_truthy NaN = False"
| "number_truthy (Finite n) = (n \<noteq> 0)"
| "number_truthy PosInfinity = True"
| "number_truthy NegInfinity = True"

fun index_less :: "nat \<Rightarrow> number \<Rightarrow> bool" where
  "index_less i NaN = False"
| "index_less i (Finite n) = (int i < n)"
| "index_less i PosInfinity = True"
| "index_less i NegInfinity = False"

text \<open>
  Reading a property \<^verbatim>\<open>v.k\<close>. On \<^verbatim>\<open>null\<close> and \<^verbatim>\<open>undefined\<close> it throws a TypeError; on
  an object it gives the own property, and \<^verbatim>\<open>undefined\<close> when there is none. The program
  reads only \<^verbatim>\<open>name\<close>, \<^verbatim>\<open>domain\<close>, \<^verbatim>\<open>colors\<close> and \<^verbatim>\<open>hex\<close>, none of which is a built-in
  property of a string, number, boolean, array or plain object, so these give
  \<^verbatim>\<open>undefined\<close> on every other value.
\<close>

definition apostrophe :: string where
  "apostrophe = [CHR 0x27]"

definition quoted :: "string \<Rightarrow> string" where
  "quoted s = apostrophe @ s @ apostrophe"

fun get_prop :: "'n jsval \<Rightarrow> string \<Rightarrow> error + 'n jsval" where
  "get_prop JUndefined k =
     Inl (TypeError (''Cannot read properties of undefined (reading '' @ quoted k @ '')''))"
| "get_prop JNull k =
     Inl (TypeError (''Cannot read properties of null (reading '' @ quoted k @ '')''))"
| "get_prop (JObj ps) k = (case map_of ps k of Some v \<Rightarrow> Inr v | None \<Rightarrow> Inr JUndefined)"
| "get_prop v k = Inr JUndefined"

text \<open>
  ToString, as performed by a template literal \<^verbatim>\<open>${v}\<close>. A plain object prints as
  \<^verbatim>\<open>[object Object]\<close> unless an own property \<^verbatim>\<open>toString\<close> (never callable in parsed JSON)
  shadows the inherited method, in which case the conversion throws. An array prints its
  elements joined by commas, \<^verbatim>\<open>null\<close> and \<^verbatim>\<open>undefined\<close> elements as the empty string.
\<close>

fun js_to_string :: "'n runtime \<Rightarrow> 'n jsval \<Rightarrow> error + string"
  and join_elems :: "'n runtime \<Rightarrow> 'n jsval list \<Rightarrow> error + string" where
  "js_to_string rt JUndefined = Inr ''undefined''"
| "js_to_string rt JNull = Inr ''null''"
| "js_to_string rt (JBool b) = Inr (if b then ''true'' else ''false'')"
| "js_to_string rt (JNum n) = Inr (num_to_string rt n)"
| "js_to_string rt (JStr s) = Inr s"
| "js_to_string rt (JArr xs) = join_elems rt xs"
| "js_to_string rt (JObj ps) =
     (case map_of ps ''toString'' of
        Some f \<Rightarrow> Inl (TypeError ''Cannot convert object to primitive value'')
      | None \<Rightarrow> Inr ''[object Object]'')"
| "join_elems rt [] = Inr []"
| "join_elems rt (x # xs) =
     (case (if x = JUndefined \<or> x = JNull then Inr [] else js_to_string rt x) of
        Inl e \<Rightarrow> Inl e
      | Inr s \<Rightarrow>
          (if xs = [] then Inr s
           else (case join_elems rt xs of Inl e \<Rightarrow> Inl e | Inr t \<Rightarrow> Inr (s @ '','' @ t))))"

section \<open>The Ad Generator: templates and \<^verbatim>\<open>generateAdsForKit\<close>\<close>

text \<open>
  What a template returns: \<^verbatim>\<open>{headline, text, cta}\<close>. An ad is that plus \<^verbatim>\<open>color\<close>, which
  holds whatever value the kit gave for \<^verbatim>\<open>hex\<close> (field \<open>text\<close> is spelled \<open>adtext\<close>: the
  plain word is reserved).
\<close>

record creative =
  headline :: string
  adtext :: string
  cta :: string

record 'n ad = creative +
  color :: "'n jsval"

text \<open>The source writes a non-breaking hyphen (U+2011) in two templates.\<close>

definition nb_hyphen :: string where
  "nb_hyphen = [CHR 0xE2, CHR 0x80, CHR 0x91]"

text \<open>
  The ten templates, in the order of the source. Each is a function of the brand string,
  which is the ToString of the value passed in (\<open>templateFn\<close> below performs it).
\<close>

definition templates :: "(string \<Rightarrow> creative) list" where
  "templates = [
    (\<lambda>brand. \<lparr>headline = ''Experience '' @ brand @ '' first'' @ nb_hyphen @ ''hand'',
       adtext = ''See how '' @ brand @ '' can transform your business. Book a live demo today!'',
       cta = ''REQUEST_DEMO''\<rparr>),
    (\<lambda>brand. \<lparr>headline = ''Join our upcoming '' @ brand @ '' webinar'',
       adtext = ''Learn industry best practices and how '' @ brand
         @ '' is leading the way in innovation. Reserve your seat now.'',
       cta = ''ATTEND''\<rparr>),
    (\<lambda>brand. \<lparr>headline = ''Ready to get started with '' @ brand @ ''?'',
       adtext = ''Apply now and start leveraging '' @ brand @ '' to grow your business.'',
       cta = ''APPLY_NOW''\<rparr>),
    (\<lambda>brand. \<lparr>headline = ''Unlock your exclusive '' @ brand @ '' guide'',
       adtext = ''Download the full document and learn how '' @ brand
         @ '' can help you optimise workflows.'',
       cta = ''UNLOCK_FULL_DOCUMENT''\<rparr>),
    (\<lambda>brand. \<lparr>headline = ''Discover the power of '' @ brand,
       adtext = ''Learn more about '' @ brand @ apostrophe
         @ ''s solutions and see why industry leaders choose us.'',
       cta = ''LEARN_MORE''\<rparr>),
    (\<lambda>brand. \<lparr>headline = ''Start your free trial of '' @ brand,
       adtext = ''Sign up today and experience the benefits of '' @ brand
         @ '' without any commitment.'',
       cta = ''SIGN_UP''\<rparr>),
    (\<lambda>brand. \<lparr>headline = ''Free eBook: '' @ brand @ '' best practices'',
       adtext = ''Download our free eBook packed with insights and strategies to get the most out of ''
         @ brand @ ''.'',
       cta = ''DOWNLOAD''\<rparr>),
    (\<lambda>brand. \<lparr>headline = ''Get your personalised '' @ brand @ '' quote'',
       adtext = ''Find out how affordable '' @ brand @ '' can be for your organisation.'',
       cta = ''GET_QUOTE''\<rparr>),
    (\<lambda>brand. \<lparr>headline = ''Register for an upcoming '' @ brand @ '' workshop'',
       adtext = ''Hands'' @ nb_hyphen
         @ ''on training from the experts. Reserve your spot and accelerate your learning.'',
       cta = ''REGISTER''\<rparr>),
    (\<lambda>brand. \<lparr>headline = ''Join the '' @ brand @ '' community'',
       adtext = ''Be part of a vibrant network of professionals and stay ahead with the latest updates from ''
         @ brand @ ''.'',
       cta = ''JOIN''\<rparr>)
  ]"

text \<open>
  \<^verbatim>\<open>templateFn(brandName)\<close> for \<^verbatim>\<open>templateFn = templates[i % templates.length]\<close>: every
  template interpolates its argument, which converts it to a string and may throw.
\<close>

definition templateFn :: "'n runtime \<Rightarrow> nat \<Rightarrow> 'n jsval \<Rightarrow> error + creative" where
  "templateFn rt i brandName =
     (case js_to_string rt brandName of
        Inl e \<Rightarrow> Inl e
      | Inr brand \<Rightarrow> Inr ((templates ! (i mod length templates)) brand))"

text \<open>\<^verbatim>\<open>const brandName = kit.name || kit.domain || 'Your brand'\<close>\<close>

definition brandName_of :: "'n runtime \<Rightarrow> 'n jsval \<Rightarrow> error + 'n jsval" where
  "brandName_of rt kit =
     (case get_prop kit ''name'' of
        Inl e \<Rightarrow> Inl e
      | Inr n \<Rightarrow>
          if truthy rt n then Inr n
          else (case get_prop kit ''domain'' of
                  Inl e \<Rightarrow> Inl e
                | Inr d \<Rightarrow> if truthy rt d then Inr d else Inr (JStr ''Your brand'')))"

text \<open>\<^verbatim>\<open>kit.colors.find((c) => c.hex)\<close>: the first element whose \<^verbatim>\<open>hex\<close> is truthy, else
  \<^verbatim>\<open>undefined\<close>; reading \<^verbatim>\<open>hex\<close> of a \<^verbatim>\<open>null\<close> element throws.\<close>

fun find_hex :: "'n runtime \<Rightarrow> 'n jsval list \<Rightarrow> error + 'n jsval" where
  "find_hex rt [] = Inr JUndefined"
| "find_hex rt (c # cs) =
     (case get_prop c ''hex'' of
        Inl e \<Rightarrow> Inl e
      | Inr h \<Rightarrow> if truthy rt h then Inr c else find_hex rt cs)"

text \<open>
  \<^verbatim>\<open>
  let primaryColour = '#0052cc';
  if (Array.isArray(kit.colors) && kit.colors.length > 0) {
    const accent = kit.colors.find((c) => c.hex);
    if (accent && accent.hex) primaryColour = accent.hex;
  }
  \<close>
\<close>

definition default_colour :: string where
  "default_colour = ''#0052cc''"

definition primaryColour_of :: "'n runtime \<Rightarrow> 'n jsval \<Rightarrow> error + 'n jsval" where
  "primaryColour_of rt kit =
     (case get_prop kit ''colors'' of
        Inl e \<Rightarrow> Inl e
      | Inr (JArr (c # cs)) \<Rightarrow>
          (case find_hex rt (c # cs) of
             Inl e \<Rightarrow> Inl e
           | Inr accent \<Rightarrow>
               if truthy rt accent then
                 (case get_prop accent ''hex'' of
                    Inl e \<Rightarrow> Inl e
                  | Inr h \<Rightarrow> if truthy rt h then Inr h else Inr (JStr default_colour))
               else Inr (JStr default_colour))
      | Inr other \<Rightarrow> Inr (JStr default_colour))"

text \<open>The object pushed in the loop: \<^verbatim>\<open>{ headline, text, cta, color: primaryColour }\<close>.\<close>

definition make_ad :: "creative \<Rightarrow> 'n jsval \<Rightarrow> 'n ad" where
  "make_ad t primaryColour =
     \<lparr>headline = headline t, adtext = adtext t, cta = cta t, color = primaryColour\<rparr>"

text \<open>
  The loop \<^verbatim>\<open>for (let i = 0; i < count; i++)\<close>, with \<open>ads\<close> the array built so far. An
  array holds at most \<open>2^32 - 1\<close> elements: \<^verbatim>\<open>ads.push\<close> on an array of that length throws a
  RangeError. That bounds the loop even when the count is infinite. (Limits of the engine
  below that of the language, such as the memory available, are not part of the model.)
\<close>

definition max_array_length :: nat where
  "max_array_length = 4294967295"

function ads_loop ::
  "'n runtime \<Rightarrow> 'n jsval \<Rightarrow> 'n jsval \<Rightarrow> number \<Rightarrow> nat \<Rightarrow> 'n ad list \<Rightarrow> error + 'n ad list" where
  "ads_loop rt brandName primaryColour count i ads =
     (if index_less i count then
        (case templateFn rt i brandName of
           Inl e \<Rightarrow> Inl e
         | Inr t \<Rightarrow>
             if max_array_length \<le> length ads then Inl (RangeError ''Invalid array length'')
             else ads_loop rt brandName primaryColour count (Suc i)
                    (ads @ [make_ad t primaryColour]))
      else Inr ads)"
  by pat_completeness auto
termination
  by (relation "measure (\<lambda>(rt, brandName, primaryColour, count, i, ads).
        max_array_length - length ads)") auto

definition generateAdsForKit :: "'n runtime \<Rightarrow> 'n jsval \<Rightarrow> number \<Rightarrow> error + 'n ad list" where
  "generateAdsForKit rt kit count =
     (case brandName_of rt kit of
        Inl e \<Rightarrow> Inl e
      | Inr brandName \<Rightarrow>
          (case primaryColour_of rt kit of
             Inl e \<Rightarrow> Inl e
           | Inr primaryColour \<Rightarrow> ads_loop rt brandName primaryColour count 0 []))"

section \<open>Requests, replies and the network\<close>

text \<open>
  A request is its parsed query: each parameter is absent or a string (\<^verbatim>\<open>req.query.k\<close> is
  then \<^verbatim>\<open>undefined\<close> or that string). A reply is the status set by \<^verbatim>\<open>res.status\<close> (200
  when the handler sets none) and the value given to \<^verbatim>\<open>res.json\<close>.

  The network is a parameter: \<open>fetch url headers\<close> is what \<^verbatim>\<open>await fetch(url, {headers})\<close>
  gives, a rejection (\<open>Inl\<close>) or a response with its status line and with what
  \<^verbatim>\<open>await response.json()\<close> will give, the parsed body or the rejection of a body that is
  not JSON. Every handler returns, beside its reply, the list of requests it sent.
\<close>

type_synonym query = "string \<rightharpoonup> string"

record 'n reply =
  code :: nat
  body :: "'n jsval"

record 'n response =
  status :: nat
  statusText :: string
  json :: "error + 'n jsval"

type_synonym request = "string \<times> (string \<times> string) list"

type_synonym 'n network = "string \<Rightarrow> (string \<times> string) list \<Rightarrow> error + 'n response"

text \<open>\<^verbatim>\<open>res.ok\<close>: the status is in the range 200 to 299.\<close>

definition ok :: "'n response \<Rightarrow> bool" where
  "ok res = (200 \<le> status res \<and> status res < 300)"

text \<open>A query parameter or environment variable inside a template literal.\<close>

definition interpolate :: "string option \<Rightarrow> string" where
  "interpolate v = (case v of None \<Rightarrow> ''undefined'' | Some s \<Rightarrow> s)"

text \<open>ToString of a non-negative integer number such as \<^verbatim>\<open>res.status\<close>: its decimal digits.\<close>

fun nat_to_string :: "nat \<Rightarrow> string" where
  "nat_to_string n =
     (if n < 10 then [''0123456789'' ! n]
      else nat_to_string (n div 10) @ [''0123456789'' ! (n mod 10)])"

section \<open>The Brand Proxy: \<^verbatim>\<open>GET /brandkit\<close>\<close>

text \<open>
  \<^verbatim>\<open>
  const { domain } = req.query;
  try {
    const response = await fetch(`https://api.brandfetch.io/v2/brands/${domain}`,
                                 { headers: { Authorization: `Bearer ${API_KEY}` } });
    const data = await response.json();
    res.json(data);
  } catch (error) { res.status(500).json({ error: error.message }); }
  \<close>
  \<open>API_KEY\<close> is the environment variable \<^verbatim>\<open>BRANDFETCH_KEY\<close>, possibly unset.
\<close>

definition brandkit_url :: "string option \<Rightarrow> string" where
  "brandkit_url domain = ''https://api.brandfetch.io/v2/brands/'' @ interpolate domain"

definition error_body :: "string \<Rightarrow> 'n jsval" where
  "error_body m = JObj [(''error'', JStr m)]"

definition brandkit :: "string option \<Rightarrow> 'n network \<Rightarrow> query \<Rightarrow> 'n reply \<times> request list" where
  "brandkit API_KEY fetch q =
     (let domain = q ''domain'';
          url = brandkit_url domain;
          headers = [(''Authorization'', ''Bearer '' @ interpolate API_KEY)]
      in (case fetch url headers of
            Inl e \<Rightarrow> (\<lparr>code = 500, body = error_body (message e)\<rparr>, [(url, headers)])
          | Inr response \<Rightarrow>
              (case json response of
                 Inl e \<Rightarrow> (\<lparr>code = 500, body = error_body (message e)\<rparr>, [(url, headers)])
               | Inr data \<Rightarrow> (\<lparr>code = 200, body = data\<rparr>, [(url, headers)]))))"

section \<open>The Ad Generator: \<^verbatim>\<open>GET /generate-ads\<close>\<close>

text \<open>
  \<^verbatim>\<open>encodeURIComponent\<close>: the letters, the digits and \<^verbatim>\<open>- _ . ! ~ * ' ( )\<close> stay; every other
  byte of the UTF-8 form becomes \<^verbatim>\<open>%XX\<close> in upper-case hexadecimal.
\<close>

definition unreserved :: "char \<Rightarrow> bool" where
  "unreserved c =
     (c \<in> set ''ABCDEFGHIJKLMNOPQRSTUVWXYZabcdefghijklmnopqrstuvwxyz0123456789-_.!~*()''
      \<or> c = CHR 0x27)"

definition percent_encode :: "char \<Rightarrow> string" where
  "percent_encode c =
     (let b = (of_char c :: nat)
      in [CHR ''%'', ''0123456789ABCDEF'' ! (b div 16), ''0123456789ABCDEF'' ! (b mod 16)])"

definition encodeURIComponent :: "string \<Rightarrow> string" where
  "encodeURIComponent s = concat (map (\<lambda>c. if unreserved c then [c] else percent_encode c) s)"

text \<open>
  \<^verbatim>\<open>const BRAND_PROXY_BASE = process.env.BRANDFETCH_URL ||
     'https://render-project-cx98.onrender.com/brandkit';\<close>
  The functions below take the resulting base URL as their argument \<open>base\<close>.
\<close>

definition BRAND_PROXY_BASE :: "string option \<Rightarrow> string" where
  "BRAND_PROXY_BASE env =
     (case env of
        Some u \<Rightarrow> if u \<noteq> [] then u else ''https://render-project-cx98.onrender.com/brandkit''
      | None \<Rightarrow> ''https://render-project-cx98.onrender.com/brandkit'')"

definition fetchBrandKit_url :: "string \<Rightarrow> string \<Rightarrow> string" where
  "fetchBrandKit_url base domain = base @ ''?domain='' @ encodeURIComponent domain"

text \<open>
  \<^verbatim>\<open>
  const url = `${BRAND_PROXY_BASE}?domain=${encodeURIComponent(domain)}`;
  const res = await fetch(url);
  if (!res.ok) {
    throw new Error(`Failed to fetch brand kit for ${domain}: ${res.status} ${res.statusText}`);
  }
  return res.json();
  \<close>
\<close>

definition fetchBrandKit ::
  "string \<Rightarrow> 'n network \<Rightarrow> string \<Rightarrow> (error + 'n jsval) \<times> request list" where
  "fetchBrandKit base fetch domain =
     (let url = fetchBrandKit_url base domain
      in (case fetch url [] of
            Inl e \<Rightarrow> (Inl e, [(url, [])])
          | Inr res \<Rightarrow>
              if \<not> ok res then
                (Inl (Error (''Failed to fetch brand kit for '' @ domain @ '': ''
                        @ nat_to_string (status res) @ '' '' @ statusText res)),
                 [(url, [])])
              else (json res, [(url, [])])))"

text \<open>
  \<^verbatim>\<open>parseInt(s, 10)\<close>: leading white space is skipped, then an optional sign, then the
  longest run of decimal digits is read; with no digit the result is NaN. The result is a
  double: the integer that the digits denote, rounded to the nearest double (ties to the
  even significand), and an infinity when the rounded value reaches \<open>2^1024\<close>. (An implementation may read the
  digits after the twentieth significant one as zeros; that can only matter above
  \<open>10^20\<close>.)
\<close>

definition white_space :: "string list" where
  "white_space = [
     [CHR 0x09], [CHR 0x0A], [CHR 0x0B], [CHR 0x0C], [CHR 0x0D], [CHR 0x20],
     [CHR 0xC2, CHR 0xA0], [CHR 0xE1, CHR 0x9A, CHR 0x80],
     [CHR 0xE2, CHR 0x80, CHR 0x80], [CHR 0xE2, CHR 0x80, CHR 0x81],
     [CHR 0xE2, CHR 0x80, CHR 0x82], [CHR 0xE2, CHR 0x80, CHR 0x83],
     [CHR 0xE2, CHR 0x80, CHR 0x84], [CHR 0xE2, CHR 0x80, CHR 0x85],
     [CHR 0xE2, CHR 0x80, CHR 0x86], [CHR 0xE2, CHR 0x80, CHR 0x87],
     [CHR 0xE2, CHR 0x80, CHR 0x88], [CHR 0xE2, CHR 0x80, CHR 0x89],
     [CHR 0xE2, CHR 0x80, CHR 0x8A], [CHR 0xE2, CHR 0x80, CHR 0xA8],
     [CHR 0xE2, CHR 0x80, CHR 0xA9], [CHR 0xE2, CHR 0x80, CHR 0xAF],
     [CHR 0xE2, CHR 0x81, CHR 0x9F], [CHR 0xE3, CHR 0x80, CHR 0x80],
     [CHR 0xEF, CHR 0xBB, CHR 0xBF]]"

function skip_white_space :: "string \<Rightarrow> string" where
  "skip_white_space s =
     (case List.find (\<lambda>w. prefix w s) white_space of
        None \<Rightarrow> s
      | Some w \<Rightarrow> skip_white_space (drop (length w) s))"
  by pat_completeness auto
termination
proof (relation "measure length")
  show "wf (measure length)" by simp
next
  fix s w
  assume "List.find (\<lambda>w. prefix w s) white_space = Some w"
  then have "w \<in> set white_space" and "prefix w s"
    by (auto simp: find_Some_iff)
  then have "w \<noteq> []" and "length w \<le> length s"
    by (auto simp: white_space_def prefix_length_le)
  then show "(drop (length w) s, s) \<in> measure length"
    by (cases w) auto
qed

definition is_digit :: "char \<Rightarrow> bool" where
  "is_digit c = (c \<in> set ''0123456789'')"

definition digit_value :: "char \<Rightarrow> nat" where
  "digit_value c = (of_char c :: nat) - 48"

definition digits_value :: "string \<Rightarrow> nat" where
  "digits_value Z = foldl (\<lambda>v c. 10 * v + digit_value c) 0 Z"

text \<open>The number of binary digits of a natural number.\<close>

fun bit_length :: "nat \<Rightarrow> nat" where
  "bit_length m = (if m = 0 then 0 else Suc (bit_length (m div 2)))"

text \<open>
  The double nearest to a natural number, \<open>None\<close> for infinity. Below \<open>2^53\<close> every
  integer is a double. Above, a double keeps the 53 leading bits \<open>q\<close>; the \<open>e\<close> bits
  dropped, \<open>r\<close>, decide the rounding against the half \<open>2^(e - 1)\<close>.
\<close>

definition round_to_double :: "nat \<Rightarrow> nat option" where
  "round_to_double m =
     (if m < 2 ^ 53 then Some m
      else
        (let e = bit_length m - 53;
             q = m div 2 ^ e;
             r = m mod 2 ^ e;
             half = 2 ^ (e - 1);
             q' = (if half < r \<or> (r = half \<and> odd q) then q + 1 else q)
         in if 2 ^ 1024 \<le> q' * 2 ^ e then None else Some (q' * 2 ^ e)))"

definition parseInt :: "string \<Rightarrow> number" where
  "parseInt inputString =
     (let S = skip_white_space inputString;
          sign = (if S \<noteq> [] \<and> hd S = CHR ''-'' then - 1 else 1 :: int);
          S' = (if S \<noteq> [] \<and> (hd S = CHR ''+'' \<or> hd S = CHR ''-'') then tl S else S);
          Z = takeWhile is_digit S'
      in if Z = [] then NaN
         else (case round_to_double (digits_value Z) of
                 None \<Rightarrow> if sign < 0 then NegInfinity else PosInfinity
               | Some v \<Rightarrow> Finite (sign * int v)))"

text \<open>\<^verbatim>\<open>const count = parseInt(req.query.count, 10) || 3\<close>: NaN and 0 are falsy.\<close>

definition count_of :: "query \<Rightarrow> number" where
  "count_of q =
     (let parsed = parseInt (interpolate (q ''count''))
      in if number_truthy parsed then parsed else Finite 3)"

text \<open>An ad as the JSON object the reply carries.\<close>

definition ad_json :: "'n ad \<Rightarrow> 'n jsval" where
  "ad_json a =
     JObj [(''headline'', JStr (headline a)), (''text'', JStr (adtext a)),
           (''cta'', JStr (cta a)), (''color'', color a)]"

text \<open>
  \<^verbatim>\<open>
  const domain = req.query.domain;
  const count = parseInt(req.query.count, 10) || 3;
  if (!domain) {
    return res.status(400).json({ error: 'Missing required query parameter: domain' });
  }
  try {
    const kit = await fetchBrandKit(domain);
    const ads = generateAdsForKit(kit, count);
    return res.json({ domain, ads });
  } catch (err) {
    console.error(err);
    return res.status(500).json({ error: err.message });
  }
  \<close>
\<close>

definition generate_ads ::
  "'n runtime \<Rightarrow> string \<Rightarrow> 'n network \<Rightarrow> query \<Rightarrow> 'n reply \<times> request list" where
  "generate_ads rt base fetch q =
     (let domain = q ''domain'';
          count = count_of q
      in (case domain of
            None \<Rightarrow>
              (\<lparr>code = 400, body = error_body ''Missing required query parameter: domain''\<rparr>, [])
          | Some d \<Rightarrow>
              if d = [] then
                (\<lparr>code = 400, body = error_body ''Missing required query parameter: domain''\<rparr>, [])
              else
                (case fetchBrandKit base fetch d of
                   (Inl err, sent) \<Rightarrow> (\<lparr>code = 500, body = error_body (message err)\<rparr>, sent)
                 | (Inr kit, sent) \<Rightarrow>
                     (case generateAdsForKit rt kit count of
                        Inl err \<Rightarrow> (\<lparr>code = 500, body = error_body (message err)\<rparr>, sent)
                      | Inr ads \<Rightarrow>
                          (\<lparr>code = 200,
                            body = JObj [(''domain'', JStr d), (''ads'', JArr (map ad_json ads))]\<rparr>,
                           sent)))))"

section \<open>Notions the properties are stated with\<close>

text \<open>An entry of \<^verbatim>\<open>colors\<close> whose \<^verbatim>\<open>hex\<close> field is truthy.\<close>

definition hex_truthy :: "'n runtime \<Rightarrow> 'n jsval \<Rightarrow> bool" where
  "hex_truthy rt c = (case get_prop c ''hex'' of Inl e \<Rightarrow> False | Inr h \<Rightarrow> truthy rt h)"

text \<open>\<^verbatim>\<open>Array.isArray(v) && v.length > 0\<close>\<close>

definition nonempty_array :: "'n jsval \<Rightarrow> bool" where
  "nonempty_array v = (case v of JArr (c # cs) \<Rightarrow> True | _ \<Rightarrow> False)"

text \<open>The \<^verbatim>\<open>ads\<close> array of a reply body, when it has one.\<close>

definition ads_of_reply :: "'n reply \<Rightarrow> 'n jsval list option" where
  "ads_of_reply r =
     (case body r of
        JObj ps \<Rightarrow> (case map_of ps ''ads'' of Some (JArr xs) \<Rightarrow> Some xs | _ \<Rightarrow> None)
      | _ \<Rightarrow> None)"

text \<open>The colours of the ads that \<open>generateAdsForKit\<close> returned, when it returned.\<close>

definition ad_colours :: "error + 'n ad list \<Rightarrow> 'n jsval list option" where
  "ad_colours r = (case r of Inl e \<Rightarrow> None | Inr ads \<Rightarrow> Some (map color ads))"

subsection \<open>Example inputs\<close>

text \<open>
  A runtime whose numbers are the naturals, a network that gives the same response to
  every request, a network on which every request fails, and the kit of the colour
  example.
\<close>

definition nat_runtime :: "nat runtime" where
  "nat_runtime = \<lparr>num_truthy = (\<lambda>n. n \<noteq> 0), num_to_string = nat_to_string\<rparr>"

definition answer :: "nat \<Rightarrow> string \<Rightarrow> error + 'n jsval \<Rightarrow> 'n network" where
  "answer st txt j = (\<lambda>url headers. Inr \<lparr>status = st, statusText = txt, json = j\<rparr>)"

definition unreachable :: "string \<Rightarrow> 'n network" where
  "unreachable m = (\<lambda>url headers. Inl (FetchError m))"

definition acme_kit :: "nat jsval" where
  "acme_kit =
     JObj [(''name'', JStr ''Acme''),
           (''colors'', JArr [JObj [(''hex'', JNull)], JObj [(''hex'', JStr ''#abc123'')]])]"

section \<open>The loop of \<^verbatim>\<open>generateAdsForKit\<close>\<close>

declare ads_loop.simps [simp del]

lemma length_templates: "length templates = 10"
  by (simp add: templates_def)

lemma ads_loop_done: "\<not> index_less i count \<Longrightarrow> ads_loop rt b c count i ads = Inr ads"
  by (simp add: ads_loop.simps)

lemma ads_loop_throws:
  "js_to_string rt b = Inl e \<Longrightarrow> index_less i count \<Longrightarrow> ads_loop rt b c count i ads = Inl e"
  by (simp add: ads_loop.simps templateFn_def)

text \<open>
  When the brand name converts to a string and the array stays within its largest
  length, the loop appends one ad for each index from \<open>i\<close> up to the count, ad \<open>j\<close> from
  template \<open>j mod 10\<close>.
\<close>

lemma ads_loop_returns:
  "js_to_string rt b = Inr brand \<Longrightarrow> count = Finite n \<Longrightarrow>
   length ads + (nat n - i) \<le> max_array_length \<Longrightarrow>
   ads_loop rt b c count i ads =
     Inr (ads @ map (\<lambda>j. make_ad ((templates ! (j mod 10)) brand) c) [i..<nat n])"
proof (induction rt b c count i ads rule: ads_loop.induct)
  case (1 rt b c count i ads)
  show ?case
  proof (cases "index_less i count")
    case True
    with "1.prems"(2) have lt: "i < nat n" by simp
    then have upt: "[i..<nat n] = i # [Suc i..<nat n]"
      by (simp add: upt_conv_Cons)
    from lt "1.prems"(3) have room: "\<not> max_array_length \<le> length ads"
      by simp
    have t: "templateFn rt i b = Inr ((templates ! (i mod 10)) brand)"
      using "1.prems"(1) by (simp add: templateFn_def length_templates)
    have fit: "length (ads @ [make_ad ((templates ! (i mod 10)) brand) c]) + (nat n - Suc i)
                 \<le> max_array_length"
      using lt "1.prems"(3) by simp
    have "ads_loop rt b c count i ads =
            ads_loop rt b c count (Suc i) (ads @ [make_ad ((templates ! (i mod 10)) brand) c])"
      using True t room by (subst ads_loop.simps) simp
    also have "\<dots> = Inr ((ads @ [make_ad ((templates ! (i mod 10)) brand) c])
                 @ map (\<lambda>j. make_ad ((templates ! (j mod 10)) brand) c) [Suc i..<nat n])"
      using "1.IH" [OF True t room "1.prems"(1,2) fit] .
    finally show ?thesis by (simp add: upt)
  next
    case False
    with "1.prems"(2) have "[i..<nat n] = []" by simp
    with False show ?thesis by (simp add: ads_loop_done)
  qed
qed

text \<open>Whatever the count, a result of the loop is the initial array followed by the ads
  of consecutive indices from \<open>i\<close> on.\<close>

lemma ads_loop_result:
  "ads_loop rt b c count i ads = Inr ads' \<Longrightarrow> js_to_string rt b = Inr brand \<Longrightarrow>
   \<exists>k. ads' = ads @ map (\<lambda>j. make_ad ((templates ! (j mod 10)) brand) c) [i..<i + k]"
proof (induction rt b c count i ads rule: ads_loop.induct)
  case (1 rt b c count i ads)
  show ?case
  proof (cases "index_less i count")
    case True
    have t: "templateFn rt i b = Inr ((templates ! (i mod 10)) brand)"
      using "1.prems"(2) by (simp add: templateFn_def length_templates)
    from True t "1.prems"(1) have room: "\<not> max_array_length \<le> length ads"
      and rec: "ads_loop rt b c count (Suc i)
                  (ads @ [make_ad ((templates ! (i mod 10)) brand) c]) = Inr ads'"
      by (subst (asm) ads_loop.simps, simp split: if_splits)+
    from "1.IH" [OF True t room rec "1.prems"(2)] obtain k where
      "ads' = (ads @ [make_ad ((templates ! (i mod 10)) brand) c])
                @ map (\<lambda>j. make_ad ((templates ! (j mod 10)) brand) c) [Suc i..<Suc i + k]"
      by blast
    moreover have "[i..<i + Suc k] = i # [Suc i..<Suc i + k]"
      by (subst upt_conv_Cons) simp_all
    ultimately have
      "ads' = ads @ map (\<lambda>j. make_ad ((templates ! (j mod 10)) brand) c) [i..<i + Suc k]"
      by (simp only: list.map append_Cons append_Nil append_assoc)
    then show ?thesis by blast
  next
    case False
    with "1.prems"(1) have "ads' = ads" by (simp add: ads_loop_done)
    then have "ads' = ads @ map (\<lambda>j. make_ad ((templates ! (j mod 10)) brand) c) [i..<i + 0]"
      by simp
    then show ?thesis by blast
  qed
qed

text \<open>A count that asks for more ads than an array can hold ends in the RangeError of
  \<^verbatim>\<open>push\<close>.\<close>

lemma ads_loop_overflow:
  "js_to_string rt b = Inr brand \<Longrightarrow> length ads \<le> max_array_length \<Longrightarrow>
   \<forall>j. i \<le> j \<and> j \<le> i + (max_array_length - length ads) \<longrightarrow> index_less j count \<Longrightarrow>
   ads_loop rt b c count i ads = Inl (RangeError ''Invalid array length'')"
proof (induction rt b c count i ads rule: ads_loop.induct)
  case (1 rt b c count i ads)
  from "1.prems"(3) have here: "index_less i count" by simp
  have t: "templateFn rt i b = Inr ((templates ! (i mod 10)) brand)"
    using "1.prems"(1) by (simp add: templateFn_def length_templates)
  show ?case
  proof (cases "max_array_length \<le> length ads")
    case True
    with here t show ?thesis by (subst ads_loop.simps) simp
  next
    case False
    let ?ads = "ads @ [make_ad ((templates ! (i mod 10)) brand) c]"
    from False have len: "length ?ads \<le> max_array_length" by simp
    have "\<forall>j. Suc i \<le> j \<and> j \<le> Suc i + (max_array_length - length ?ads) \<longrightarrow> index_less j count"
    proof (intro allI impI)
      fix j assume "Suc i \<le> j \<and> j \<le> Suc i + (max_array_length - length ?ads)"
      with False have "i \<le> j \<and> j \<le> i + (max_array_length - length ads)" by (simp, arith)
      with "1.prems"(3) show "index_less j count" by blast
    qed
    from "1.IH" [OF here t False "1.prems"(1) len this]
    have "ads_loop rt b c count (Suc i) ?ads = Inl (RangeError ''Invalid array length'')" .
    with here t False show ?thesis by (subst ads_loop.simps) simp
  qed
qed

lemma generateAdsForKit_overflow:
  assumes "brandName_of rt kit = Inr b" and "primaryColour_of rt kit = Inr c"
    and "js_to_string rt b = Inr brand" and "count = PosInfinity \<or> (\<exists>n>4294967295. count = Finite n)"
  shows "generateAdsForKit rt kit count = Inl (RangeError ''Invalid array length'')"
proof -
  from assms(4)
  have "\<forall>j. 0 \<le> j \<and> j \<le> 0 + (max_array_length - length ([] :: 'a ad list)) \<longrightarrow> index_less j count"
    by (auto simp: max_array_length_def)
  from ads_loop_overflow [OF assms(3) _ this, of c] assms(1,2) show ?thesis
    by (simp add: generateAdsForKit_def)
qed

lemma ads_loop_colour:
  "ads_loop rt b c count i ads = Inr ads' \<Longrightarrow> a \<in> set ads' \<Longrightarrow> a \<in> set ads \<or> color a = c"
proof (induction rt b c count i ads rule: ads_loop.induct)
  case (1 rt b c count i ads)
  show ?case
  proof (cases "index_less i count")
    case True
    then obtain t where t: "templateFn rt i b = Inr t"
      and room: "\<not> max_array_length \<le> length ads"
      and rec: "ads_loop rt b c count (Suc i) (ads @ [make_ad t c]) = Inr ads'"
      using "1.prems"(1) by (subst (asm) ads_loop.simps) (auto split: sum.splits if_splits)
    from "1.IH" [OF True t room rec "1.prems"(2)] show ?thesis
      by (auto simp: make_ad_def)
  next
    case False
    with "1.prems" show ?thesis by (simp add: ads_loop_done)
  qed
qed

lemma generateAdsForKit_returns:
  assumes "brandName_of rt kit = Inr b" and "primaryColour_of rt kit = Inr c"
    and "js_to_string rt b = Inr brand" and "n \<le> 4294967295"
  shows "generateAdsForKit rt kit (Finite n) =
           Inr (map (\<lambda>j. make_ad ((templates ! (j mod 10)) brand) c) [0..<nat n])"
proof -
  from assms(4) have "length ([] :: 'a ad list) + (nat n - 0) \<le> max_array_length"
    by (simp add: max_array_length_def)
  from ads_loop_returns [OF assms(3) refl this, of c] assms(1,2) show ?thesis
    by (simp add: generateAdsForKit_def)
qed


lemma generateAdsForKit_colour:
  assumes "generateAdsForKit rt kit count = Inr ads" and "a \<in> set ads"
  shows "primaryColour_of rt kit = Inr (color a)"
  using assms
  by (auto simp: generateAdsForKit_def split: sum.splits dest: ads_loop_colour)

text \<open>Entry \<open>i\<close> of the result is template \<open>i mod 10\<close> applied to the string of the brand name.\<close>

lemma generateAdsForKit_entries:
  assumes "js_to_string rt b = Inr brand"
    and "generateAdsForKit rt kit count = Inr ads" and "brandName_of rt kit = Inr b"
    and "i < length ads"
  shows "ads ! i = make_ad ((templates ! (i mod 10)) brand) (color (ads ! i))"
proof -
  from assms(2,3) obtain c where loop: "ads_loop rt b c count 0 [] = Inr ads"
    by (auto simp: generateAdsForKit_def split: sum.splits)
  from ads_loop_result [OF loop assms(1)] obtain k where
    ads: "ads = map (\<lambda>j. make_ad ((templates ! (j mod 10)) brand) c) [0..<k]"
    by auto
  with assms(4) show ?thesis by (simp add: make_ad_def)
qed

section \<open>The primary colour\<close>


text \<open>The scan cannot throw when no entry is \<^verbatim>\<open>null\<close>.\<close>

lemma find_hex_no_null:
  "JNull \<notin> set cs \<Longrightarrow> JUndefined \<notin> set cs \<Longrightarrow>
   find_hex rt cs = Inr (case List.find (hex_truthy rt) cs of Some c \<Rightarrow> c | None \<Rightarrow> JUndefined)"
proof (induction cs)
  case Nil
  then show ?case by simp
next
  case (Cons c cs)
  then show ?case
    by (cases c) (auto simp: hex_truthy_def split: option.splits)
qed


lemma primaryColour_default:
  assumes "get_prop kit ''colors'' = Inr v" and "\<not> nonempty_array v"
  shows "primaryColour_of rt kit = Inr (JStr ''#0052cc'')"
  using assms
  by (auto simp: primaryColour_of_def nonempty_array_def default_colour_def
      split: jsval.splits list.splits)

text \<open>Sufficient conditions for the two derivations not to throw.\<close>

lemma find_Some_holds: "List.find P xs = Some x \<Longrightarrow> P x"
  by (induction xs) (auto split: if_splits)

lemma brandName_of_object: "\<exists>b. brandName_of rt (JObj ps) = Inr b"
  by (simp add: brandName_of_def split: option.splits)

lemma primaryColour_of_no_null:
  assumes "get_prop kit ''colors'' = Inr v"
    and "\<forall>cs. v = JArr cs \<longrightarrow> JNull \<notin> set cs \<and> JUndefined \<notin> set cs"
  shows "\<exists>c. primaryColour_of rt kit = Inr c"
proof (cases "nonempty_array v")
  case False
  with assms(1) show ?thesis by (blast dest: primaryColour_default)
next
  case True
  then obtain x xs where v: "v = JArr (x # xs)"
    by (auto simp: nonempty_array_def split: jsval.splits list.splits)
  with assms(2) have "JNull \<notin> set (x # xs)" and "JUndefined \<notin> set (x # xs)"
    by blast+
  then have f: "find_hex rt (x # xs) =
      Inr (case List.find (hex_truthy rt) (x # xs) of Some c \<Rightarrow> c | None \<Rightarrow> JUndefined)"
    by (rule find_hex_no_null)
  show ?thesis
  proof (cases "List.find (hex_truthy rt) (x # xs)")
    case None
    with assms(1) v f show ?thesis
      by (simp add: primaryColour_of_def del: find_hex.simps)
  next
    case (Some c)
    then have "hex_truthy rt c" by (rule find_Some_holds)
    then obtain ps where "c = JObj ps"
      by (cases c) (simp_all add: hex_truthy_def)
    with assms(1) v f Some show ?thesis
      by (simp add: primaryColour_of_def del: find_hex.simps split: option.splits)
  qed
qed

section \<open>The handler of \<^verbatim>\<open>/generate-ads\<close>\<close>

lemma count_of_nonzero:
  "parseInt (interpolate (q ''count'')) = Finite n \<Longrightarrow> n \<noteq> 0 \<Longrightarrow> count_of q = Finite n"
  by (simp add: count_of_def)

lemma count_of_zero:
  "parseInt (interpolate (q ''count'')) = Finite 0 \<Longrightarrow> count_of q = Finite 3"
  by (simp add: count_of_def)

lemma count_of_NaN:
  "parseInt (interpolate (q ''count'')) = NaN \<Longrightarrow> count_of q = Finite 3"
  by (simp add: count_of_def)

text \<open>The rounding at work: \<open>2^53 + 1\<close> is not a double.\<close>

lemma parseInt_rounds: "parseInt ''9007199254740993'' = Finite 9007199254740992"
  by (simp add: parseInt_def round_to_double_def Let_def is_digit_def digits_value_def
      digit_value_def white_space_def)

text \<open>Once the kit is fetched, the reply is decided by \<open>generateAdsForKit\<close> alone.\<close>

lemma generate_ads_fetched:
  assumes "q ''domain'' = Some d" and "d \<noteq> []"
    and "fetch (fetchBrandKit_url base d) [] = Inr res" and "ok res" and "json res = Inr kit"
  shows "fst (generate_ads rt base fetch q) =
           (case generateAdsForKit rt kit (count_of q) of
              Inl err \<Rightarrow> \<lparr>code = 500, body = error_body (message err)\<rparr>
            | Inr ads \<Rightarrow>
                \<lparr>code = 200,
                 body = JObj [(''domain'', JStr d), (''ads'', JArr (map ad_json ads))]\<rparr>)"
  using assms
  by (simp add: generate_ads_def fetchBrandKit_def Let_def split: sum.splits)

text \<open>A failed fetch of the kit is reported with status 500 and the message of the error.\<close>

lemma generate_ads_fetch_failed:
  assumes "q ''domain'' = Some d" and "d \<noteq> []"
    and "fetchBrandKit base fetch d = (Inl err, sent)"
  shows "generate_ads rt base fetch q = (\<lparr>code = 500, body = error_body (message err)\<rparr>, sent)"
  using assms by (simp add: generate_ads_def)

lemma map_constant: "\<forall>a\<in>set xs. f a = c \<Longrightarrow> map f xs = replicate (length xs) c"
  by (induction xs) auto

section \<open>Outbound URLs\<close>

text \<open>\<^verbatim>\<open>encodeURIComponent\<close> leaves only unreserved characters and the percent sign, and it
  leaves a string as it is exactly when every character of it is unreserved.\<close>

lemma hex_digit_unreserved: "k < 16 \<Longrightarrow> unreserved (''0123456789ABCDEF'' ! k)"
proof -
  have "list_all (\<lambda>k. unreserved (''0123456789ABCDEF'' ! k)) [0..<16]"
    by code_simp
  then have "\<forall>k\<in>set [0..<16]. unreserved (''0123456789ABCDEF'' ! k)"
    by (simp only: list_all_iff)
  moreover assume "k < 16"
  ultimately show ?thesis by simp
qed

lemma of_char_less_256: "(of_char c :: nat) < 256"
  by (cases c) simp

lemma percent_encode_chars: "x \<in> set (percent_encode c) \<Longrightarrow> unreserved x \<or> x = CHR ''%''"
proof -
  have "(of_char c :: nat) div 16 < 16" using of_char_less_256 [of c] by arith
  moreover have "(of_char c :: nat) mod 16 < 16" by simp
  moreover assume "x \<in> set (percent_encode c)"
  ultimately show ?thesis
    by (auto simp: percent_encode_def Let_def hex_digit_unreserved)
qed

lemma encodeURIComponent_chars:
  "x \<in> set (encodeURIComponent d) \<Longrightarrow> unreserved x \<or> x = CHR ''%''"
  by (auto simp: encodeURIComponent_def dest: percent_encode_chars split: if_splits)

lemma encodeURIComponent_Nil: "encodeURIComponent [] = []"
  by (simp add: encodeURIComponent_def)

lemma encodeURIComponent_Cons:
  "encodeURIComponent (c # s) = (if unreserved c then [c] else percent_encode c) @ encodeURIComponent s"
  by (simp add: encodeURIComponent_def)

lemma length_encodeURIComponent:
  "length (encodeURIComponent d) = length d + 2 * length (filter (\<lambda>c. \<not> unreserved c) d)"
  by (induction d) (simp_all add: encodeURIComponent_Nil encodeURIComponent_Cons percent_encode_def Let_def)

lemma encodeURIComponent_unreserved:
  "\<forall>c\<in>set d. unreserved c \<Longrightarrow> encodeURIComponent d = d"
  by (induction d) (simp_all add: encodeURIComponent_Nil encodeURIComponent_Cons)

lemma encodeURIComponent_identity:
  "encodeURIComponent d = d \<longleftrightarrow> (\<forall>c\<in>set d. unreserved c)"
proof
  assume "encodeURIComponent d = d"
  then have "length (encodeURIComponent d) = length d" by simp
  then have "filter (\<lambda>c. \<not> unreserved c) d = []"
    by (simp add: length_encodeURIComponent)
  then show "\<forall>c\<in>set d. unreserved c"
    by (simp add: filter_empty_conv)
qed (rule encodeURIComponent_unreserved)

lemma generate_ads_sent:
  assumes "q ''domain'' = Some d" and "d \<noteq> []"
  shows "snd (generate_ads rt base fetch q) = [(fetchBrandKit_url base d, [])]"
  using assms
  by (simp add: generate_ads_def fetchBrandKit_def Let_def split: sum.splits prod.splits)

section \<open>Properties\<close>

text \<open>
  C1, as amended. For every request to \<^verbatim>\<open>GET /generate-ads\<close> with a non-empty domain, a
  brand-kit fetch that succeeds with a kit whose brand name and colour resolve and whose
  brand name converts to a string, and a count parameter that parses to an integer
  \<open>n\<close> with \<open>1 \<le> n \<le> 2^32 - 1\<close> (the largest length of an array): the reply has status
  200, its ads sequence has exactly \<open>n\<close> entries, and the headline, text and cta of entry
  \<open>i\<close> are those of template \<open>i mod 10\<close> applied to the resolved brand name.
\<close>

theorem generate_ads_positive_count:
  assumes "q ''domain'' = Some d" and "d \<noteq> []"
    and "fetch (fetchBrandKit_url base d) [] = Inr res" and "ok res" and "json res = Inr kit"
    and "brandName_of rt kit = Inr b" and "js_to_string rt b = Inr brand"
    and "primaryColour_of rt kit = Inr c"
    and "parseInt (interpolate (q ''count'')) = Finite n" and "0 < n" and "n \<le> 4294967295"
  shows "\<exists>ads. fst (generate_ads rt base fetch q) =
             \<lparr>code = 200,
              body = JObj [(''domain'', JStr d), (''ads'', JArr (map ad_json ads))]\<rparr>
           \<and> int (length ads) = n
           \<and> (\<forall>i<length ads.
                 headline (ads ! i) = headline ((templates ! (i mod 10)) brand)
               \<and> adtext (ads ! i) = adtext ((templates ! (i mod 10)) brand)
               \<and> cta (ads ! i) = cta ((templates ! (i mod 10)) brand))"
proof -
  let ?ads = "map (\<lambda>j. make_ad ((templates ! (j mod 10)) brand) c) [0..<nat n]"
  from assms(9,10) have "count_of q = Finite n" by (simp add: count_of_nonzero)
  with assms(6-8,11) have "generateAdsForKit rt kit (count_of q) = Inr ?ads"
    by (simp add: generateAdsForKit_returns)
  with generate_ads_fetched [where q = q and fetch = fetch and rt = rt, OF assms(1-5)]
  have "fst (generate_ads rt base fetch q) =
          \<lparr>code = 200, body = JObj [(''domain'', JStr d), (''ads'', JArr (map ad_json ?ads))]\<rparr>"
    by simp
  moreover from assms(10) have "int (length ?ads) = n" by simp
  moreover have "\<forall>i<length ?ads.
                 headline (?ads ! i) = headline ((templates ! (i mod 10)) brand)
               \<and> adtext (?ads ! i) = adtext ((templates ! (i mod 10)) brand)
               \<and> cta (?ads ! i) = cta ((templates ! (i mod 10)) brand)"
    by (simp add: make_ad_def)
  ultimately show ?thesis by blast
qed

text \<open>
  Witness for C1: the request \<^verbatim>\<open>?domain=acme.com&count=12\<close>, answered by a proxy that
  returns the example kit, gets twelve ads.
\<close>

theorem generate_ads_positive_count_witness:
  "parseInt ''12'' = Finite 12 \<and>
   map_option length
     (ads_of_reply (fst (generate_ads nat_runtime ''http://proxy/brandkit''
        (answer 200 ''OK'' (Inr acme_kit))
        [''domain'' \<mapsto> ''acme.com'', ''count'' \<mapsto> ''12'']))) = Some 12"
proof -
  let ?q = "[''domain'' \<mapsto> ''acme.com'', ''count'' \<mapsto> ''12'']"
  let ?res = "\<lparr>status = 200, statusText = ''OK'', json = Inr acme_kit\<rparr>"
  have p12: "parseInt ''12'' = Finite 12"
    by (simp add: parseInt_def round_to_double_def is_digit_def digits_value_def digit_value_def
        white_space_def)
  then have p: "parseInt (interpolate (?q ''count'')) = Finite 12"
    by (simp add: interpolate_def)
  have d: "?q ''domain'' = Some ''acme.com''" by simp
  have f: "answer 200 ''OK'' (Inr acme_kit)
             (fetchBrandKit_url ''http://proxy/brandkit'' ''acme.com'') [] = Inr ?res"
    by (simp add: answer_def)
  have o: "ok ?res" by (simp add: ok_def)
  have b: "brandName_of nat_runtime acme_kit = Inr (JStr ''Acme'')"
    by (simp add: brandName_of_def acme_kit_def)
  have c: "primaryColour_of nat_runtime acme_kit = Inr (JStr ''#abc123'')"
    by (simp add: primaryColour_of_def acme_kit_def)
  from generate_ads_positive_count [where q = ?q and fetch = "answer 200 ''OK'' (Inr acme_kit)"
      and rt = nat_runtime and brand = "''Acme''" and n = 12, OF d _ f o _ b _ c p]
  obtain ads where "fst (generate_ads nat_runtime ''http://proxy/brandkit''
        (answer 200 ''OK'' (Inr acme_kit)) ?q) =
          \<lparr>code = 200,
           body = JObj [(''domain'', JStr ''acme.com''), (''ads'', JArr (map ad_json ads))]\<rparr>"
    and "int (length ads) = 12"
    by auto
  with p12 show ?thesis by (simp add: ads_of_reply_def)
qed

text \<open>
  C1 as stated fails where the count parses to 0: \<^verbatim>\<open>parseInt(..) || 3\<close> replaces the
  falsy 0 by 3, and the reply carries three ads, not none.
\<close>

theorem generate_ads_zero_count_counterexample:
  "parseInt ''0'' = Finite 0 \<and>
   map_option length
     (ads_of_reply (fst (generate_ads nat_runtime ''http://proxy/brandkit''
        (answer 200 ''OK'' (Inr acme_kit))
        [''domain'' \<mapsto> ''acme.com'', ''count'' \<mapsto> ''0'']))) = Some 3"
proof -
  let ?q = "[''domain'' \<mapsto> ''acme.com'', ''count'' \<mapsto> ''0'']"
  let ?res = "\<lparr>status = 200, statusText = ''OK'', json = Inr acme_kit\<rparr>"
  have p0: "parseInt ''0'' = Finite 0"
    by (simp add: parseInt_def round_to_double_def is_digit_def digits_value_def digit_value_def
        white_space_def)
  then have "parseInt (interpolate (?q ''count'')) = Finite 0"
    by (simp add: interpolate_def)
  then have n: "count_of ?q = Finite 3" by (rule count_of_zero)
  have d: "?q ''domain'' = Some ''acme.com''" by simp
  have f: "answer 200 ''OK'' (Inr acme_kit)
             (fetchBrandKit_url ''http://proxy/brandkit'' ''acme.com'') [] = Inr ?res"
    by (simp add: answer_def)
  have o: "ok ?res" by (simp add: ok_def)
  have g: "generateAdsForKit nat_runtime acme_kit (Finite 3) =
             Inr (map (\<lambda>j. make_ad ((templates ! (j mod 10)) ''Acme'') (JStr ''#abc123''))
                    [0..<nat 3])"
    by (rule generateAdsForKit_returns [where b = "JStr ''Acme''"])
      (simp_all add: brandName_of_def primaryColour_of_def acme_kit_def)
  from generate_ads_fetched [where q = ?q and fetch = "answer 200 ''OK'' (Inr acme_kit)"
      and rt = nat_runtime, OF d _ f o] n g
  have "map_option length
     (ads_of_reply (fst (generate_ads nat_runtime ''http://proxy/brandkit''
        (answer 200 ''OK'' (Inr acme_kit)) ?q))) = Some 3"
    by (simp add: ads_of_reply_def)
  with p0 show ?thesis by simp
qed

text \<open>
  C2. For every request to \<^verbatim>\<open>GET /generate-ads\<close> with a non-empty domain for which the
  Brand Proxy answers with a status outside 200..299 (404, say), the reply has status 500
  and body \<^verbatim>\<open>{error: message}\<close>, and the message contains the decimal status code.
\<close>

theorem generate_ads_upstream_status:
  assumes "q ''domain'' = Some d" and "d \<noteq> []"
    and "fetch (fetchBrandKit_url base d) [] = Inr res" and "\<not> ok res"
  shows "\<exists>m. fst (generate_ads rt base fetch q) = \<lparr>code = 500, body = JObj [(''error'', JStr m)]\<rparr>
           \<and> sublist (nat_to_string (status res)) m"
proof -
  let ?m = "''Failed to fetch brand kit for '' @ d @ '': '' @ nat_to_string (status res)
              @ '' '' @ statusText res"
  from assms(3,4) have "fetchBrandKit base fetch d = (Inl (Error ?m), [(fetchBrandKit_url base d, [])])"
    by (simp add: fetchBrandKit_def)
  from generate_ads_fetch_failed [where q = q and fetch = fetch and rt = rt, OF assms(1,2) this]
  have "fst (generate_ads rt base fetch q) = \<lparr>code = 500, body = JObj [(''error'', JStr ?m)]\<rparr>"
    by (simp add: error_body_def)
  moreover have "sublist (nat_to_string (status res)) ?m"
    unfolding sublist_def
    by (rule exI [of _ "''Failed to fetch brand kit for '' @ d @ '': ''"],
        rule exI [of _ "'' '' @ statusText res"]) simp
  ultimately show ?thesis by blast
qed

text \<open>Witness for C2: the proxy answers 404 Not Found.\<close>

theorem generate_ads_upstream_status_witness:
  "\<not> ok \<lparr>status = 404, statusText = ''Not Found'', json = Inr (JNull :: nat jsval)\<rparr> \<and>
   nat_to_string 404 = ''404'' \<and>
   fst (generate_ads nat_runtime ''http://proxy/brandkit''
          (answer 404 ''Not Found'' (Inr JNull)) [''domain'' \<mapsto> ''acme.com'']) =
     \<lparr>code = 500,
      body = JObj [(''error'', JStr ''Failed to fetch brand kit for acme.com: 404 Not Found'')]\<rparr>"
proof -
  let ?q = "[''domain'' \<mapsto> ''acme.com'']"
  let ?res = "\<lparr>status = 404, statusText = ''Not Found'', json = Inr (JNull :: nat jsval)\<rparr>"
  have d: "?q ''domain'' = Some ''acme.com''" by simp
  have f: "answer 404 ''Not Found'' (Inr JNull)
             (fetchBrandKit_url ''http://proxy/brandkit'' ''acme.com'') [] = Inr ?res"
    by (simp add: answer_def)
  have o: "\<not> ok ?res" by (simp add: ok_def)
  have n: "nat_to_string 404 = ''404''" by simp
  from generate_ads_upstream_status [where q = ?q and fetch = "answer 404 ''Not Found'' (Inr JNull)"
      and rt = nat_runtime, OF d _ f o]
  have "code (fst (generate_ads nat_runtime ''http://proxy/brandkit''
          (answer 404 ''Not Found'' (Inr JNull)) ?q)) = 500"
    by auto
  moreover have "body (fst (generate_ads nat_runtime ''http://proxy/brandkit''
          (answer 404 ''Not Found'' (Inr JNull)) ?q)) =
       JObj [(''error'', JStr ''Failed to fetch brand kit for acme.com: 404 Not Found'')]"
    by (simp add: generate_ads_def fetchBrandKit_def answer_def ok_def error_body_def)
  ultimately show ?thesis using o n by (cases "fst (generate_ads nat_runtime ''http://proxy/brandkit''
          (answer 404 ''Not Found'' (Inr JNull)) ?q)") auto
qed



text \<open>
  C4. For every brand kit with no \<^verbatim>\<open>colors\<close> field, and likewise whenever \<^verbatim>\<open>colors\<close> is
  not a non-empty array, every ad that \<open>generateAdsForKit\<close> returns has the default
  colour \<^verbatim>\<open>#0052cc\<close>.
\<close>

theorem default_colour_without_colors:
  assumes "get_prop kit ''colors'' = Inr v" and "\<not> nonempty_array v"
    and "generateAdsForKit rt kit count = Inr ads"
  shows "\<forall>a\<in>set ads. color a = JStr ''#0052cc''"
proof
  fix a assume "a \<in> set ads"
  with assms(3) have "primaryColour_of rt kit = Inr (color a)"
    by (rule generateAdsForKit_colour)
  with primaryColour_default [OF assms(1,2), of rt] show "color a = JStr ''#0052cc''"
    by simp
qed

text \<open>Witness for C4: the kit \<^verbatim>\<open>{name: "Acme"}\<close> has no \<^verbatim>\<open>colors\<close> field.\<close>

theorem default_colour_without_colors_witness:
  "get_prop (JObj [(''name'', JStr ''Acme'')] :: nat jsval) ''colors'' = Inr JUndefined \<and>
   \<not> nonempty_array (JUndefined :: nat jsval) \<and>
   ad_colours (generateAdsForKit nat_runtime (JObj [(''name'', JStr ''Acme'')]) (Finite 2))
     = Some [JStr ''#0052cc'', JStr ''#0052cc'']"
proof -
  let ?kit = "JObj [(''name'', JStr ''Acme'')] :: nat jsval"
  let ?ads = "map (\<lambda>j. make_ad ((templates ! (j mod 10)) ''Acme'') (JStr ''#0052cc'' :: nat jsval))
                [0..<nat 2]"
  have k: "get_prop ?kit ''colors'' = Inr JUndefined" by simp
  have n: "\<not> nonempty_array (JUndefined :: nat jsval)" by (simp add: nonempty_array_def)
  have g: "generateAdsForKit nat_runtime ?kit (Finite 2) = Inr ?ads"
    by (rule generateAdsForKit_returns [where b = "JStr ''Acme''"])
      (simp_all add: brandName_of_def primaryColour_of_def default_colour_def)
  from default_colour_without_colors [OF k n g]
  have "map color ?ads = replicate (length ?ads) (JStr ''#0052cc'')"
    by (rule map_constant)
  then have "map color ?ads = [JStr ''#0052cc'', JStr ''#0052cc'']"
    by (simp add: numeral_2_eq_2)
  with k n g show ?thesis by (simp add: ad_colours_def)
qed

text \<open>
  C5. For every request to \<^verbatim>\<open>GET /generate-ads\<close> whose \<^verbatim>\<open>domain\<close> query parameter is
  missing, the reply has status 400 and body
  \<^verbatim>\<open>{error: 'Missing required query parameter: domain'}\<close>, and no request is sent: no
  brand-kit fetch is performed.
\<close>

theorem generate_ads_missing_domain:
  assumes "q ''domain'' = None"
  shows "generate_ads rt base fetch q =
           (\<lparr>code = 400, body = JObj [(''error'', JStr ''Missing required query parameter: domain'')]\<rparr>,
            [])"
  using assms by (simp add: generate_ads_def error_body_def)

text \<open>Witness for C5: the request \<^verbatim>\<open>?count=5\<close>.\<close>

theorem generate_ads_missing_domain_witness:
  "[''count'' \<mapsto> ''5''] ''domain'' = None \<and>
   generate_ads nat_runtime ''http://proxy/brandkit'' (answer 200 ''OK'' (Inr acme_kit))
     [''count'' \<mapsto> ''5''] =
     (\<lparr>code = 400, body = JObj [(''error'', JStr ''Missing required query parameter: domain'')]\<rparr>,
      [])"
proof -
  have d: "[''count'' \<mapsto> ''5''] ''domain'' = None" by simp
  from generate_ads_missing_domain [where q = "[''count'' \<mapsto> ''5'']", OF d] d
  show ?thesis by simp
qed

text \<open>
  C6, as amended. For every brand kit that is not \<^verbatim>\<open>null\<close>, the brand name is \<^verbatim>\<open>kit.name\<close>
  if that is truthy, else \<^verbatim>\<open>kit.domain\<close> if that is truthy, else the literal
  \<^verbatim>\<open>Your brand\<close>, and entry \<open>i\<close> of the generated ads is template \<open>i mod 10\<close> applied to
  the string of that value. In particular the kit \<^verbatim>\<open>{name: "Acme"}\<close> gives \<^verbatim>\<open>Acme\<close>, the kit
  \<^verbatim>\<open>{domain: "acme.com"}\<close> gives \<^verbatim>\<open>acme.com\<close>, and the empty kit gives \<^verbatim>\<open>Your brand\<close>.
\<close>

theorem brandName_resolution:
  assumes "get_prop kit ''name'' = Inr n" and "get_prop kit ''domain'' = Inr d"
  shows "brandName_of rt kit =
           Inr (if truthy rt n then n else if truthy rt d then d else JStr ''Your brand'')
       \<and> (\<forall>ads brand i.
             generateAdsForKit rt kit count = Inr ads \<longrightarrow>
             js_to_string rt (if truthy rt n then n else if truthy rt d then d
                              else JStr ''Your brand'') = Inr brand \<longrightarrow>
             i < length ads \<longrightarrow>
             ads ! i = make_ad ((templates ! (i mod 10)) brand) (color (ads ! i)))
       \<and> brandName_of rt (JObj [(''name'', JStr ''Acme'')]) = Inr (JStr ''Acme'')
       \<and> brandName_of rt (JObj [(''domain'', JStr ''acme.com'')]) = Inr (JStr ''acme.com'')
       \<and> brandName_of rt (JObj []) = Inr (JStr ''Your brand'')"
proof -
  have b: "brandName_of rt kit =
           Inr (if truthy rt n then n else if truthy rt d then d else JStr ''Your brand'')"
    using assms by (simp add: brandName_of_def)
  have "\<forall>ads brand i.
             generateAdsForKit rt kit count = Inr ads \<longrightarrow>
             js_to_string rt (if truthy rt n then n else if truthy rt d then d
                              else JStr ''Your brand'') = Inr brand \<longrightarrow>
             i < length ads \<longrightarrow>
             ads ! i = make_ad ((templates ! (i mod 10)) brand) (color (ads ! i))"
    using generateAdsForKit_entries [OF _ _ b] by blast
  moreover have "brandName_of rt (JObj [(''name'', JStr ''Acme'')]) = Inr (JStr ''Acme'')"
    by (simp add: brandName_of_def)
  moreover have "brandName_of rt (JObj [(''domain'', JStr ''acme.com'')]) = Inr (JStr ''acme.com'')"
    by (simp add: brandName_of_def)
  moreover have "brandName_of rt (JObj []) = Inr (JStr ''Your brand'')"
    by (simp add: brandName_of_def)
  ultimately show ?thesis using b by blast
qed

text \<open>Witness for C6: a kit whose name is \<^verbatim>\<open>null\<close> is named by its domain.\<close>

theorem brandName_resolution_witness:
  "get_prop (JObj [(''name'', JNull), (''domain'', JStr ''acme.com'')] :: nat jsval) ''name''
     = Inr JNull \<and>
   get_prop (JObj [(''name'', JNull), (''domain'', JStr ''acme.com'')] :: nat jsval) ''domain''
     = Inr (JStr ''acme.com'') \<and>
   brandName_of nat_runtime (JObj [(''name'', JNull), (''domain'', JStr ''acme.com'')])
     = Inr (JStr ''acme.com'') \<and>
   generateAdsForKit nat_runtime (JObj [(''name'', JNull), (''domain'', JStr ''acme.com'')])
       (Finite 1)
     = Inr [make_ad ((templates ! 0) ''acme.com'') (JStr ''#0052cc'')]"
proof -
  let ?kit = "JObj [(''name'', JNull), (''domain'', JStr ''acme.com'')] :: nat jsval"
  let ?ads = "map (\<lambda>j. make_ad ((templates ! (j mod 10)) ''acme.com'') (JStr ''#0052cc'' :: nat jsval))
                [0..<nat 1]"
  have n: "get_prop ?kit ''name'' = Inr JNull" by simp
  have d: "get_prop ?kit ''domain'' = Inr (JStr ''acme.com'')" by simp
  note r = brandName_resolution [OF n d, of nat_runtime "Finite 1"]
  from r have b: "brandName_of nat_runtime ?kit = Inr (JStr ''acme.com'')" by simp
  have g: "generateAdsForKit nat_runtime ?kit (Finite 1) = Inr ?ads"
    by (rule generateAdsForKit_returns [OF b])
      (simp_all add: primaryColour_of_def default_colour_def)
  have l: "(0::nat) < length ?ads" by simp
  from r g l have "?ads ! 0 = make_ad ((templates ! (0 mod 10)) ''acme.com'') (color (?ads ! 0))"
    by simp
  with n d b g show ?thesis by (simp add: make_ad_def)
qed

text \<open>
  C6 as stated fails for a name that is present but falsy: in the kit
  \<^verbatim>\<open>{name: "", domain: "acme.com"}\<close> the name is there, and the brand name is the domain.
\<close>

theorem brandName_empty_name_counterexample:
  "get_prop (JObj [(''name'', JStr ''''), (''domain'', JStr ''acme.com'')] :: nat jsval) ''name''
     = Inr (JStr '''') \<and>
   brandName_of nat_runtime (JObj [(''name'', JStr ''''), (''domain'', JStr ''acme.com'')])
     = Inr (JStr ''acme.com'')"
  by (simp add: brandName_of_def)

text \<open>
  C7. Ad generation is deterministic: two runs of \<open>generateAdsForKit\<close> with the same kit
  and the same count give identical results. The result is a function of the count and of
  the three fields the code reads, so kits that agree on \<^verbatim>\<open>name\<close>, \<^verbatim>\<open>domain\<close> and
  \<^verbatim>\<open>colors\<close> (equal kits, in particular) give identical ads.
\<close>

theorem generateAdsForKit_deterministic:
  assumes "get_prop kit ''name'' = get_prop kit' ''name''"
    and "get_prop kit ''domain'' = get_prop kit' ''domain''"
    and "get_prop kit ''colors'' = get_prop kit' ''colors''"
    and "count = count'"
  shows "generateAdsForKit rt kit count = generateAdsForKit rt kit' count'"
proof -
  have b: "brandName_of rt kit = brandName_of rt kit'"
    unfolding brandName_of_def assms(1,2) ..
  have c: "primaryColour_of rt kit = primaryColour_of rt kit'"
    unfolding primaryColour_of_def assms(3) ..
  show ?thesis
    unfolding generateAdsForKit_def b c assms(4) ..
qed

text \<open>Witness for C7: two kits that differ in a field the generator never reads.\<close>

theorem generateAdsForKit_deterministic_witness:
  "get_prop (JObj [(''name'', JStr ''Acme'')] :: nat jsval) ''name''
     = get_prop (JObj [(''name'', JStr ''Acme''), (''claimed'', JBool True)] :: nat jsval) ''name'' \<and>
   generateAdsForKit nat_runtime (JObj [(''name'', JStr ''Acme'')]) (Finite 3)
     = generateAdsForKit nat_runtime (JObj [(''name'', JStr ''Acme''), (''claimed'', JBool True)])
         (Finite 3)"
proof -
  let ?k = "JObj [(''name'', JStr ''Acme'')] :: nat jsval"
  let ?k' = "JObj [(''name'', JStr ''Acme''), (''claimed'', JBool True)] :: nat jsval"
  have n: "get_prop ?k ''name'' = get_prop ?k' ''name''" by simp
  have d: "get_prop ?k ''domain'' = get_prop ?k' ''domain''" by simp
  have c: "get_prop ?k ''colors'' = get_prop ?k' ''colors''" by simp
  from generateAdsForKit_deterministic [OF n d c refl, of nat_runtime "Finite 3"] n
  show ?thesis by simp
qed

text \<open>
  C8. For every request to \<^verbatim>\<open>GET /brandkit\<close>, either the upstream request succeeds and its
  body parses as JSON, and the reply is that JSON value with status 200; or the request
  or the parsing fails with an error, and the reply is \<^verbatim>\<open>{error: message}\<close> with status
  500.
\<close>

theorem brandkit_reply:
  "(\<exists>res data.
      fetch (brandkit_url (q ''domain'')) [(''Authorization'', ''Bearer '' @ interpolate API_KEY)]
        = Inr res
      \<and> json res = Inr data
      \<and> fst (brandkit API_KEY fetch q) = \<lparr>code = 200, body = data\<rparr>)
   \<or> (\<exists>e.
        (fetch (brandkit_url (q ''domain'')) [(''Authorization'', ''Bearer '' @ interpolate API_KEY)]
           = Inl e
         \<or> (\<exists>res. fetch (brandkit_url (q ''domain''))
                     [(''Authorization'', ''Bearer '' @ interpolate API_KEY)] = Inr res
                  \<and> json res = Inl e))
        \<and> fst (brandkit API_KEY fetch q) = \<lparr>code = 500, body = JObj [(''error'', JStr (message e))]\<rparr>)"
proof (cases "fetch (brandkit_url (q ''domain''))
                [(''Authorization'', ''Bearer '' @ interpolate API_KEY)]")
  case (Inl e)
  then show ?thesis by (simp add: brandkit_def error_body_def)
next
  case (Inr res)
  then show ?thesis
    by (cases "json res") (simp_all add: brandkit_def error_body_def)
qed

text \<open>
  C9, as amended. For every domain string, the Brand Proxy interpolates the domain into
  its upstream URL as it is; the Ad Generator does not: it sends the Brand Proxy the
  domain passed through \<^verbatim>\<open>encodeURIComponent\<close>, in which every character is unreserved or
  a percent sign, and which is the domain itself only when the domain has no character
  to escape.
\<close>

theorem domain_in_outbound_urls:
  "snd (brandkit API_KEY fetch (q(''domain'' \<mapsto> d))) =
     [(''https://api.brandfetch.io/v2/brands/'' @ d,
       [(''Authorization'', ''Bearer '' @ interpolate API_KEY)])]
   \<and> (d \<noteq> [] \<longrightarrow>
        snd (generate_ads rt base fetch' (q(''domain'' \<mapsto> d))) =
          [(base @ ''?domain='' @ encodeURIComponent d, [])])
   \<and> (\<forall>c\<in>set (encodeURIComponent d). unreserved c \<or> c = CHR ''%'')
   \<and> (encodeURIComponent d = d \<longleftrightarrow> (\<forall>c\<in>set d. unreserved c))"
proof -
  have "snd (brandkit API_KEY fetch (q(''domain'' \<mapsto> d))) =
     [(''https://api.brandfetch.io/v2/brands/'' @ d,
       [(''Authorization'', ''Bearer '' @ interpolate API_KEY)])]"
    by (simp add: brandkit_def brandkit_url_def interpolate_def Let_def split: sum.splits)
  moreover have "d \<noteq> [] \<longrightarrow>
        snd (generate_ads rt base fetch' (q(''domain'' \<mapsto> d))) =
          [(base @ ''?domain='' @ encodeURIComponent d, [])]"
    using generate_ads_sent [where q = "q(''domain'' \<mapsto> d)" and d = d and fetch = fetch']
    by (simp add: fetchBrandKit_url_def)
  moreover have "\<forall>c\<in>set (encodeURIComponent d). unreserved c \<or> c = CHR ''%''"
    using encodeURIComponent_chars by blast
  ultimately show ?thesis using encodeURIComponent_identity by blast
qed

text \<open>Witness for C9: the domain \<^verbatim>\<open>a/b c\<close>, raw in one URL and escaped in the other.\<close>

theorem domain_in_outbound_urls_witness:
  "''a/b c'' \<noteq> [] \<and>
   snd (brandkit (Some ''KEY'') (unreachable ''down'' :: nat network) [''domain'' \<mapsto> ''a/b c'']) =
     [(''https://api.brandfetch.io/v2/brands/a/b c'', [(''Authorization'', ''Bearer KEY'')])] \<and>
   snd (generate_ads nat_runtime ''http://proxy/brandkit'' (unreachable ''down'')
          [''domain'' \<mapsto> ''a/b c'']) =
     [(''http://proxy/brandkit?domain=a%2Fb%20c'', [])]"
proof -
  have e: "encodeURIComponent ''a/b c'' = ''a%2Fb%20c''"
    by (simp add: encodeURIComponent_def unreserved_def percent_encode_def)
  have n: "''a/b c'' \<noteq> []" by simp
  from domain_in_outbound_urls [where d = "''a/b c''" and q = Map.empty and rt = nat_runtime
      and API_KEY = "Some ''KEY''" and fetch = "unreachable ''down'' :: nat network"
      and fetch' = "unreachable ''down''" and base = "''http://proxy/brandkit''"] e n
  show ?thesis by (simp add: interpolate_def)
qed

text \<open>
  C9 as stated fails for the Ad Generator: for the domain \<^verbatim>\<open>a/b\<close> the URL it requests
  ends in \<^verbatim>\<open>a%2Fb\<close>, which is not the direct interpolation.
\<close>

theorem generate_ads_url_counterexample:
  "snd (generate_ads nat_runtime ''http://proxy/brandkit'' (answer 200 ''OK'' (Inr acme_kit))
          [''domain'' \<mapsto> ''a/b'']) = [(''http://proxy/brandkit?domain=a%2Fb'', [])] \<and>
   ''http://proxy/brandkit?domain=a%2Fb'' \<noteq> ''http://proxy/brandkit'' @ ''?domain='' @ ''a/b''"
proof -
  have e: "encodeURIComponent ''a/b'' = ''a%2Fb''"
    by (simp add: encodeURIComponent_def unreserved_def percent_encode_def)
  have d: "[''domain'' \<mapsto> ''a/b''] ''domain'' = Some ''a/b''" by simp
  from generate_ads_sent [where q = "[''domain'' \<mapsto> ''a/b'']"
      and fetch = "answer 200 ''OK'' (Inr acme_kit)" and rt = nat_runtime
      and base = "''http://proxy/brandkit''", OF d] e
  show ?thesis by (simp add: fetchBrandKit_url_def)
qed



end
